theory Spec2Isabelle
  imports Complex_Main "HOL-Library.Word"
begin

section \<open>The App component (src/App.jsx)\<close>

subsection \<open>Filter objects\<close>

text \<open>
  A filter setting is a JavaScript object. Its keys are strings, and a value is a boolean
  (the three toggles) or a number (the two percent sliders); numbers are modelled as
  integers. An object is a finite map: a key that is absent maps to \<open>None\<close>.
\<close>

datatype val = Bool bool | Num int

type_synonym filter_object = "string \<rightharpoonup> val"

text \<open>
  The object literal \<open>{grayscale: false, sepia: false, invert: false, brightness: 100,
  contrast: 100}\<close>. The source writes it out four times: as the initial state, in the
  upload's \<open>onload\<close>, in \<open>handleResetFilters\<close> and in the \<open>showOriginal\<close> ternary.
\<close>

definition default_filters :: filter_object where
  "default_filters =
     [''grayscale'' \<mapsto> Bool False,
      ''sepia'' \<mapsto> Bool False,
      ''invert'' \<mapsto> Bool False,
      ''brightness'' \<mapsto> Num 100,
      ''contrast'' \<mapsto> Num 100]"

definition field_names :: "string list" where
  "field_names = [''grayscale'', ''sepia'', ''invert'', ''brightness'', ''contrast'']"

definition has_all_fields :: "filter_object \<Rightarrow> bool" where
  "has_all_fields f = list_all (\<lambda>k. f k \<noteq> None) field_names"

subsection \<open>Component state\<close>

text \<open>
  The canvas behind \<open>canvasRef\<close>. Of the DOM's canvas only \<open>toDataURL\<close> is called by
  this component: it serialises the bitmap, and throws a \<open>SecurityError\<close> when the
  canvas is not origin-clean.
\<close>

record canvas =
  origin_clean :: bool
  png :: string

datatype dom_error = SecurityError

definition toDataURL :: "canvas \<Rightarrow> dom_error + string" where
  "toDataURL c = (if origin_clean c then Inr (png c) else Inl SecurityError)"

text \<open>
  The four \<open>useState\<close> cells and the \<open>useRef\<close> cell. \<open>image_st\<close> is the cell
  \<open>image\<close>: \<open>null\<close> (\<open>None\<close>) or the data URL of the uploaded file.
\<close>

record app =
  image_st :: "string option"
  filters :: filter_object
  showOriginal :: bool
  theme :: string
  canvasRef :: "canvas option"

definition App_init :: app where
  "App_init =
     \<lparr>image_st = None, filters = default_filters, showOriginal = False,
      theme = ''dark'', canvasRef = None\<rparr>"

text \<open>JavaScript truthiness of \<open>image\<close>: \<open>null\<close> and the empty string are falsy.\<close>

definition truthy :: "string option \<Rightarrow> bool" where
  "truthy img = (case img of None \<Rightarrow> False | Some d \<Rightarrow> d \<noteq> [])"

subsection \<open>Handlers\<close>


text \<open>
  The callback \<open>reader.onload\<close>: \<open>setImage(e.target.result)\<close> and \<open>setFilters\<close> with
  the default object. It runs when the read completes, on the state of that moment,
  which other handlers may have changed since the upload was started.
\<close>

definition reader_onload :: "string \<Rightarrow> app \<Rightarrow> app" where
  "reader_onload result s = s\<lparr>image_st := Some result, filters := default_filters\<rparr>"


text \<open>\<open>setFilters(prev => ({...prev, [filterName]: value}))\<close>\<close>

definition handleFilterChange :: "string \<Rightarrow> val \<Rightarrow> app \<Rightarrow> app" where
  "handleFilterChange filterName v s = s\<lparr>filters := (filters s)(filterName \<mapsto> v)\<rparr>"

definition handleResetFilters :: "app \<Rightarrow> app" where
  "handleResetFilters s = s\<lparr>filters := default_filters\<rparr>"

definition handlePresetSelect :: "filter_object \<Rightarrow> app \<Rightarrow> app" where
  "handlePresetSelect presetFilters s = s\<lparr>filters := presetFilters\<rparr>"

definition toggleTheme :: "app \<Rightarrow> app" where
  "toggleTheme s = s\<lparr>theme := (if theme s = ''dark'' then ''light'' else ''dark'')\<rparr>"

text \<open>Decimal digits of a number, as the template literal prints \<open>Date.now()\<close>.\<close>

fun digits10 :: "nat \<Rightarrow> string" where
  "digits10 n =
     (if n < 10 then [char_of (48 + n)]
      else digits10 (n div 10) @ [char_of (48 + n mod 10)])"

declare digits10.simps [simp del]

text \<open>
  The anchor element \<open>handleDownload\<close> builds and clicks. The handler sets no state;
  its result is the state as it was and the download it triggered, if any.
\<close>

record link =
  download :: string
  href :: string

definition handleDownload :: "nat \<Rightarrow> app \<Rightarrow> dom_error + (app \<times> link option)" where
  "handleDownload now s =
     (case canvasRef s of
        None \<Rightarrow> Inr (s, None)
      | Some c \<Rightarrow>
          if \<not> truthy (image_st s) then Inr (s, None)
          else (case toDataURL c of
                  Inl e \<Rightarrow> Inl e
                | Inr url \<Rightarrow>
                    Inr (s, Some \<lparr>download = ''filtered-image-'' @ digits10 now @ ''.png'',
                                   href = url\<rparr>)))"

text \<open>The five pointer handlers of the compare button, each a \<open>setShowOriginal\<close>.\<close>

datatype gesture = MouseDown | MouseUp | MouseLeave | TouchStart | TouchEnd

fun compare_toggle :: "gesture \<Rightarrow> app \<Rightarrow> app" where
  "compare_toggle MouseDown s = s\<lparr>showOriginal := True\<rparr>"
| "compare_toggle MouseUp s = s\<lparr>showOriginal := False\<rparr>"
| "compare_toggle MouseLeave s = s\<lparr>showOriginal := False\<rparr>"
| "compare_toggle TouchStart s = s\<lparr>showOriginal := True\<rparr>"
| "compare_toggle TouchEnd s = s\<lparr>showOriginal := False\<rparr>"

fun begins :: "gesture \<Rightarrow> bool" where
  "begins MouseDown = True"
| "begins TouchStart = True"
| "begins _ = False"

fun ends :: "gesture \<Rightarrow> bool" where
  "ends MouseUp = True"
| "ends MouseLeave = True"
| "ends TouchEnd = True"
| "ends _ = False"

subsection \<open>What the component renders\<close>

text \<open>
  The props the JSX passes down: \<open>FilterControls\<close> and the gallery get the stored
  \<open>filters\<close>; \<open>FilteredImage\<close> gets the \<open>showOriginal\<close> ternary.
\<close>

definition FilteredImage_filters :: "app \<Rightarrow> filter_object" where
  "FilteredImage_filters s = (if showOriginal s then default_filters else filters s)"

record editor =
  FilterControls_filters :: filter_object
  FilteredImage_image :: string
  FilteredImage_filters_prop :: filter_object
  compare_label :: string
  Gallery_image :: string
  Gallery_currentFilters :: filter_object

datatype view = ImageUploader | Editor editor

definition App_view :: "app \<Rightarrow> view" where
  "App_view s =
     (case image_st s of
        None \<Rightarrow> ImageUploader
      | Some img \<Rightarrow>
          if img = [] then ImageUploader
          else Editor
            \<lparr>FilterControls_filters = filters s,
             FilteredImage_image = img,
             FilteredImage_filters_prop = FilteredImage_filters s,
             compare_label = (if showOriginal s then ''Original'' else ''Hold to Compare''),
             Gallery_image = img,
             Gallery_currentFilters = filters s\<rparr>)"

section \<open>The filter engine (spec, sections 3, 4.1 and 4.2)\<close>

text \<open>
  \<open>App\<close> hands the image and the filter object to the component \<open>FilteredImage\<close>,
  which draws the canvas. That component is not among the sources, so the engine below
  follows the specification's description of it.
\<close>

subsection \<open>Data\<close>

text \<open>
  Modelled from the spec: one 8-bit channel of a pixel (the bitmap types belong to the
  absent \<open>FilteredImage\<close> component).
\<close>

type_synonym channel = "8 word"

text \<open>
  Modelled from the spec: the RGBA pixel of a \<open>SourceBitmap\<close> (the bitmap types belong
  to the absent \<open>FilteredImage\<close> component).
\<close>

record pixel =
  red :: channel
  green :: channel
  blue :: channel
  alpha :: channel

text \<open>
  Modelled from the spec: \<open>SourceBitmap\<close> and the rendered pixel buffer of the absent
  \<open>FilteredImage\<close> component, a width by height grid of pixels in row-major order.
\<close>

record bitmap =
  width :: nat
  height :: nat
  pixels :: "pixel list"

text \<open>
  Modelled from the spec: the value type \<open>FilterParameters\<close> the absent renderer works
  on, three flags and two percentages.
\<close>

record FilterParameters =
  grayscale_on :: bool
  sepia_on :: bool
  invert_on :: bool
  brightness_pct :: int
  contrast_pct :: int

text \<open>
  Modelled from the spec: the two failures of \<open>render\<close> (the renderer is absent from the
  sources).
\<close>

datatype engine_error = InvalidParameters | SourceUnavailable

text \<open>
  Modelled from the spec: how the absent renderer reads a filter object. All five fields
  must be present, the flags booleans and the percentages numbers in the declared range
  from 0 to 200; anything else is \<open>InvalidParameters\<close>.
\<close>

definition read_parameters :: "filter_object \<Rightarrow> engine_error + FilterParameters" where
  "read_parameters p =
     (case (p ''grayscale'', p ''sepia'', p ''invert'', p ''brightness'', p ''contrast'') of
        (Some (Bool g), Some (Bool s), Some (Bool i), Some (Num b), Some (Num c)) \<Rightarrow>
          if 0 \<le> b \<and> b \<le> 200 \<and> 0 \<le> c \<and> c \<le> 200
          then Inr \<lparr>grayscale_on = g, sepia_on = s, invert_on = i,
                    brightness_pct = b, contrast_pct = c\<rparr>
          else Inl InvalidParameters
      | _ \<Rightarrow> Inl InvalidParameters)"

subsection \<open>Colour transforms\<close>

text \<open>
  Modelled from the spec: "clamp to [0,255]" of the absent colour transform library,
  from an integer to a channel.
\<close>

definition clamp255 :: "int \<Rightarrow> channel" where
  "clamp255 x = word_of_int (max 0 (min 255 x))"

text \<open>
  Modelled from the spec: the step from the fractional value of a formula to an 8-bit
  channel, which the spec leaves unsaid (the library is absent from the sources). The
  quotient \<open>n / d\<close> is taken to the nearest integer, a half going up.
\<close>

definition nearest :: "int \<Rightarrow> int \<Rightarrow> int" where
  "nearest n d = (2 * n + d) div (2 * d)"

text \<open>
  Modelled from the spec: \<open>grayscale(r,g,b)\<close> of the absent colour transform library,
  the luma \<open>0.299r + 0.587g + 0.114b\<close> on all three channels.
\<close>

definition grayscale :: "pixel \<Rightarrow> pixel" where
  "grayscale px =
     (let y = clamp255 (nearest (299 * uint (red px) + 587 * uint (green px)
                                 + 114 * uint (blue px)) 1000)
      in px\<lparr>red := y, green := y, blue := y\<rparr>)"

text \<open>
  Modelled from the spec: \<open>sepia(r,g,b)\<close> of the absent colour transform library. The
  spec names "the standard sepia matrix" without its entries; the entries here are the
  usual ones, rows (0.393, 0.769, 0.189), (0.349, 0.686, 0.168), (0.272, 0.534, 0.131).
\<close>

definition sepia :: "pixel \<Rightarrow> pixel" where
  "sepia px =
     (let r = uint (red px); g = uint (green px); b = uint (blue px)
      in px\<lparr>red := clamp255 (nearest (393 * r + 769 * g + 189 * b) 1000),
             green := clamp255 (nearest (349 * r + 686 * g + 168 * b) 1000),
             blue := clamp255 (nearest (272 * r + 534 * g + 131 * b) 1000)\<rparr>)"

text \<open>
  Modelled from the spec: \<open>invert(r,g,b)\<close> of the absent colour transform library,
  \<open>255 - channel\<close> on each channel.
\<close>

definition invert :: "pixel \<Rightarrow> pixel" where
  "invert px =
     px\<lparr>red := clamp255 (255 - uint (red px)),
         green := clamp255 (255 - uint (green px)),
         blue := clamp255 (255 - uint (blue px))\<rparr>"

text \<open>
  Modelled from the spec: \<open>brightness(channel, pct)\<close> of the absent colour transform
  library, \<open>channel * (pct/100)\<close> clamped.
\<close>

definition brightness :: "channel \<Rightarrow> int \<Rightarrow> channel" where
  "brightness c pct = clamp255 (nearest (uint c * pct) 100)"

text \<open>
  Modelled from the spec: \<open>contrast(channel, pct)\<close> of the absent colour transform
  library, \<open>(channel - 128) * (pct/100) + 128\<close> clamped.
\<close>

definition contrast :: "channel \<Rightarrow> int \<Rightarrow> channel" where
  "contrast c pct = clamp255 (nearest ((uint c - 128) * pct) 100 + 128)"

subsection \<open>Compositor\<close>

text \<open>Modelled from the spec: the five filter stages of the absent compositor.\<close>

datatype stage = Grayscale | Sepia | Invert | Brightness | Contrast

text \<open>
  Modelled from the spec: the fixed application order of the absent compositor,
  grayscale, sepia, invert, brightness, contrast.
\<close>

definition stage_order :: "stage list" where
  "stage_order = [Grayscale, Sepia, Invert, Brightness, Contrast]"

text \<open>
  Modelled from the spec: one stage of the absent compositor on one pixel. A flag stage
  does nothing when its flag is off; a percent stage works on the three colour channels;
  alpha passes through every stage.
\<close>

fun run_stage :: "FilterParameters \<Rightarrow> stage \<Rightarrow> pixel \<Rightarrow> pixel" where
  "run_stage fp Grayscale px = (if grayscale_on fp then grayscale px else px)"
| "run_stage fp Sepia px = (if sepia_on fp then sepia px else px)"
| "run_stage fp Invert px = (if invert_on fp then invert px else px)"
| "run_stage fp Brightness px =
     px\<lparr>red := brightness (red px) (brightness_pct fp),
         green := brightness (green px) (brightness_pct fp),
         blue := brightness (blue px) (brightness_pct fp)\<rparr>"
| "run_stage fp Contrast px =
     px\<lparr>red := contrast (red px) (contrast_pct fp),
         green := contrast (green px) (contrast_pct fp),
         blue := contrast (blue px) (contrast_pct fp)\<rparr>"

text \<open>Modelled from the spec: the per-pixel pipeline of the absent compositor.\<close>

definition apply_stages :: "FilterParameters \<Rightarrow> pixel \<Rightarrow> pixel" where
  "apply_stages fp px = foldl (\<lambda>p st. run_stage fp st p) px stage_order"

text \<open>
  Modelled from the spec: \<open>render(source, params)\<close> of the absent compositor. It fails
  with \<open>InvalidParameters\<close> on a filter object that does not read, then with
  \<open>SourceUnavailable\<close> on a null source; otherwise every pixel goes through the
  pipeline on its own and the result has the source's width and height.
\<close>

definition render :: "bitmap option \<Rightarrow> filter_object \<Rightarrow> engine_error + bitmap" where
  "render source params =
     (case read_parameters params of
        Inl e \<Rightarrow> Inl e
      | Inr fp \<Rightarrow>
          (case source of
             None \<Rightarrow> Inl SourceUnavailable
           | Some src \<Rightarrow> Inr (src\<lparr>pixels := map (apply_stages fp) (pixels src)\<rparr>)))"

section \<open>Properties of the App component\<close>

lemma default_has_all_fields: "has_all_fields default_filters"
  by (simp add: has_all_fields_def field_names_def default_filters_def)

text \<open>
  C2: while the compare gesture is held, the image is rendered with the default
  (identity) filter object; after the release it is rendered with the stored filters
  again; and neither the press nor the release changes the stored filters. With an
  image loaded, the editor shows just that: \<open>FilteredImage\<close> gets the default object
  during the hold and the stored filters after it, the controls get the stored filters
  throughout.
\<close>

theorem compare_keeps_filters:
  assumes "begins b" and "ends e"
  shows "FilteredImage_filters (compare_toggle b s) = default_filters
    \<and> FilteredImage_filters (compare_toggle e (compare_toggle b s)) = filters s
    \<and> filters (compare_toggle b s) = filters s
    \<and> filters (compare_toggle e (compare_toggle b s)) = filters s
    \<and> image_st (compare_toggle e (compare_toggle b s)) = image_st s
    \<and> (image_st s = Some img \<and> img \<noteq> [] \<longrightarrow>
         App_view (compare_toggle b s) =
           Editor \<lparr>FilterControls_filters = filters s, FilteredImage_image = img,
                   FilteredImage_filters_prop = default_filters,
                   compare_label = ''Original'', Gallery_image = img,
                   Gallery_currentFilters = filters s\<rparr>
         \<and> App_view (compare_toggle e (compare_toggle b s)) =
           Editor \<lparr>FilterControls_filters = filters s, FilteredImage_image = img,
                   FilteredImage_filters_prop = filters s,
                   compare_label = ''Hold to Compare'', Gallery_image = img,
                   Gallery_currentFilters = filters s\<rparr>)"
  using assms
  by (cases b; cases e) (simp_all add: FilteredImage_filters_def App_view_def)

theorem compare_keeps_filters_witness:
  "begins MouseDown \<and> ends MouseUp
   \<and> image_st (handleFilterChange ''invert'' (Bool True)
        (reader_onload ''data:,x'' App_init)) = Some ''data:,x''
   \<and> ''data:,x'' \<noteq> []
   \<and> FilteredImage_filters
       (compare_toggle MouseDown (handleFilterChange ''invert'' (Bool True)
         (reader_onload ''data:,x'' App_init)))
     = default_filters
   \<and> FilteredImage_filters
       (compare_toggle MouseUp
         (compare_toggle MouseDown (handleFilterChange ''invert'' (Bool True)
           (reader_onload ''data:,x'' App_init))))
     = default_filters(''invert'' \<mapsto> Bool True)
   \<and> filters
       (compare_toggle MouseUp
         (compare_toggle MouseDown (handleFilterChange ''invert'' (Bool True)
           (reader_onload ''data:,x'' App_init))))
     = default_filters(''invert'' \<mapsto> Bool True)"
proof -
  have f: "filters (handleFilterChange ''invert'' (Bool True)
        (reader_onload ''data:,x'' App_init))
      = default_filters(''invert'' \<mapsto> Bool True)"
    by (simp add: handleFilterChange_def reader_onload_def)
  have i: "image_st (handleFilterChange ''invert'' (Bool True)
        (reader_onload ''data:,x'' App_init)) = Some ''data:,x''"
    by (simp add: handleFilterChange_def reader_onload_def)
  have b: "begins MouseDown" and e: "ends MouseUp"
    by simp_all
  from compare_keeps_filters [OF b e, of "handleFilterChange ''invert'' (Bool True)
        (reader_onload ''data:,x'' App_init)"] f i
  show ?thesis by simp
qed




text \<open>
  C4: a single-field change of a filter object that has all five fields gives an object
  that has all five fields, holds the new value under the changed name and holds under
  every other name what it held before.
\<close>

theorem filter_change_keeps_fields:
  assumes "has_all_fields (filters s)"
  shows "has_all_fields (filters (handleFilterChange name v s))
    \<and> filters (handleFilterChange name v s) name = Some v
    \<and> (\<forall>k. k \<noteq> name \<longrightarrow> filters (handleFilterChange name v s) k = filters s k)"
  using assms by (simp add: handleFilterChange_def has_all_fields_def field_names_def)

theorem filter_change_keeps_fields_witness:
  "has_all_fields (filters App_init)
   \<and> has_all_fields (filters (handleFilterChange ''sepia'' (Bool True) App_init))
   \<and> filters (handleFilterChange ''sepia'' (Bool True) App_init) ''sepia'' = Some (Bool True)
   \<and> filters (handleFilterChange ''sepia'' (Bool True) App_init) ''contrast'' = Some (Num 100)"
proof -
  have h: "has_all_fields (filters App_init)"
    by (simp add: App_init_def default_has_all_fields)
  have c: "filters App_init ''contrast'' = Some (Num 100)"
    by (simp add: App_init_def default_filters_def)
  from filter_change_keeps_fields [OF h, of "''sepia''" "Bool True"] h c
  show ?thesis by simp
qed

text \<open>
  C10: with no canvas behind \<open>canvasRef\<close>, or with no image loaded (\<open>image\<close> is
  \<open>null\<close>, or the empty string, which is falsy too), \<open>handleDownload\<close> returns
  without an error, triggers no download and leaves the state as it was.
\<close>

theorem download_without_image_is_noop:
  assumes "canvasRef s = None \<or> image_st s = None \<or> image_st s = Some []"
  shows "handleDownload now s = Inr (s, None)"
  using assms by (auto simp: handleDownload_def truthy_def split: option.splits)

theorem download_without_image_is_noop_witness:
  "(canvasRef App_init = None \<or> image_st App_init = None \<or> image_st App_init = Some [])
   \<and> handleDownload 1762160400000 App_init = Inr (App_init, None)
   \<and> handleDownload 1762160400000
        (App_init\<lparr>canvasRef := Some \<lparr>origin_clean = False, png = ''data:,''\<rparr>\<rparr>)
       = Inr (App_init\<lparr>canvasRef := Some \<lparr>origin_clean = False, png = ''data:,''\<rparr>\<rparr>, None)"
proof -
  have h: "canvasRef App_init = None \<or> image_st App_init = None \<or> image_st App_init = Some []"
    by (simp add: App_init_def)
  have h': "canvasRef (App_init\<lparr>canvasRef := Some \<lparr>origin_clean = False, png = ''data:,''\<rparr>\<rparr>) = None
      \<or> image_st (App_init\<lparr>canvasRef := Some \<lparr>origin_clean = False, png = ''data:,''\<rparr>\<rparr>) = None
      \<or> image_st (App_init\<lparr>canvasRef := Some \<lparr>origin_clean = False, png = ''data:,''\<rparr>\<rparr>)
          = Some []"
    by (simp add: App_init_def)
  from download_without_image_is_noop [OF h, of 1762160400000]
    download_without_image_is_noop [OF h', of 1762160400000] h
  show ?thesis by simp
qed

section \<open>Properties of the filter engine\<close>

subsection \<open>Channels, clamping and rounding\<close>

lemma uint_channel_range: "0 \<le> uint (c :: channel) \<and> uint c \<le> 255"
  using uint_lt2p [of c] by simp

lemma clamp255_uint: "clamp255 (uint c) = c"
  using uint_channel_range [of c] by (simp add: clamp255_def)

lemma uint_clamp255: "uint (clamp255 x) = max 0 (min 255 x)"
  by (simp add: clamp255_def uint_word_of_int)

lemma nearest_exact:
  assumes "0 < d"
  shows "nearest (k * d) d = k"
proof -
  have "(d + k * (2 * d)) div (2 * d) = k + d div (2 * d)"
    using assms by (intro div_mult_self1) simp
  moreover have "d div (2 * d) = 0"
    using assms by simp
  moreover have "2 * (k * d) + d = d + k * (2 * d)"
    by (simp add: algebra_simps)
  ultimately show ?thesis
    unfolding nearest_def by (simp only: add_0_right)
qed

lemma nearest_round:
  assumes "0 < d"
  shows "nearest n d = round (real_of_int n / real_of_int d)"
proof -
  have "real_of_int n / real_of_int d + 1 / 2 = real_of_int (2 * n + d) / real_of_int (2 * d)"
    using assms by (simp add: field_simps)
  then show ?thesis
    unfolding round_def nearest_def by (simp only: floor_divide_of_int_eq)
qed

lemma brightness_round:
  "uint (brightness c pct) =
     max 0 (min 255 (round (real_of_int (uint c) * (real_of_int pct / 100))))"
  using nearest_round [of 100 "uint c * pct"] by (simp add: brightness_def uint_clamp255)

lemma brightness_whole:
  assumes "100 dvd uint c * pct"
  shows "real_of_int (uint (brightness c pct)) =
     max 0 (min 255 (real_of_int (uint c) * (real_of_int pct / 100)))"
proof -
  from assms obtain k where k: "uint c * pct = k * 100"
    by (auto simp: dvd_def mult.commute)
  have "real_of_int (uint c) * (real_of_int pct / 100) = real_of_int (uint c * pct) / 100"
    by simp
  also have "\<dots> = real_of_int k"
    by (simp add: k)
  finally have v: "real_of_int (uint c) * (real_of_int pct / 100) = real_of_int k" .
  have u: "uint (brightness c pct) = max 0 (min 255 k)"
    using nearest_exact [of 100 k] by (simp add: brightness_def uint_clamp255 k)
  show ?thesis
    unfolding v u by (simp add: of_int_max of_int_min)
qed

subsection \<open>Reading filter objects\<close>

lemma read_default:
  "read_parameters default_filters =
     Inr \<lparr>grayscale_on = False, sepia_on = False, invert_on = False,
          brightness_pct = 100, contrast_pct = 100\<rparr>"
  by (simp add: read_parameters_def default_filters_def)

lemma read_invert:
  "read_parameters (default_filters(''invert'' \<mapsto> Bool True)) =
     Inr \<lparr>grayscale_on = False, sepia_on = False, invert_on = True,
          brightness_pct = 100, contrast_pct = 100\<rparr>"
  by (simp add: read_parameters_def default_filters_def)

lemma read_brightness:
  "0 \<le> pct \<Longrightarrow> pct \<le> 200 \<Longrightarrow>
   read_parameters (default_filters(''brightness'' \<mapsto> Num pct)) =
     Inr \<lparr>grayscale_on = False, sepia_on = False, invert_on = False,
          brightness_pct = pct, contrast_pct = 100\<rparr>"
  by (simp add: read_parameters_def default_filters_def)

subsection \<open>Stages\<close>

lemma brightness_100: "brightness c 100 = c"
  using nearest_exact [of 100 "uint c"] by (simp add: brightness_def clamp255_uint)

lemma contrast_100: "contrast c 100 = c"
  using nearest_exact [of 100 "uint c - 128"] by (simp add: contrast_def clamp255_uint)

lemma apply_stages_unfold:
  "apply_stages fp px =
     run_stage fp Contrast (run_stage fp Brightness (run_stage fp Invert
       (run_stage fp Sepia (run_stage fp Grayscale px))))"
  by (simp add: apply_stages_def stage_order_def)

lemma apply_stages_default:
  "apply_stages \<lparr>grayscale_on = False, sepia_on = False, invert_on = False,
      brightness_pct = 100, contrast_pct = 100\<rparr> px = px"
  by (simp add: apply_stages_unfold brightness_100 contrast_100)

lemma invert_invert: "invert (invert px) = px"
proof -
  have "clamp255 (255 - uint (clamp255 (255 - uint c))) = c" for c :: channel
    using uint_channel_range [of c] by (simp add: uint_clamp255 clamp255_uint)
  then show ?thesis by (simp add: invert_def)
qed

lemma render_invert:
  "render (Some src) (default_filters(''invert'' \<mapsto> Bool True)) =
     Inr (src\<lparr>pixels := map invert (pixels src)\<rparr>)"
proof -
  have "apply_stages \<lparr>grayscale_on = False, sepia_on = False, invert_on = True,
      brightness_pct = 100, contrast_pct = 100\<rparr> = invert"
    by (rule ext) (simp add: apply_stages_unfold brightness_100 contrast_100)
  then show ?thesis by (simp add: render_def read_invert)
qed

lemma invert_white:
  "invert \<lparr>red = 255, green = 255, blue = 255, alpha = a\<rparr>
     = \<lparr>red = 0, green = 0, blue = 0, alpha = a\<rparr>"
  by (simp add: invert_def clamp255_def)

lemma render_brightness:
  assumes "0 \<le> pct" and "pct \<le> 200"
  shows "render (Some src) (default_filters(''brightness'' \<mapsto> Num pct)) =
     Inr (src\<lparr>pixels := map (\<lambda>px. px\<lparr>red := brightness (red px) pct,
                                        green := brightness (green px) pct,
                                        blue := brightness (blue px) pct\<rparr>) (pixels src)\<rparr>)"
proof -
  have "apply_stages \<lparr>grayscale_on = False, sepia_on = False, invert_on = False,
      brightness_pct = pct, contrast_pct = 100\<rparr>
    = (\<lambda>px. px\<lparr>red := brightness (red px) pct, green := brightness (green px) pct,
                blue := brightness (blue px) pct\<rparr>)"
    by (rule ext) (simp add: apply_stages_unfold contrast_100)
  then show ?thesis using assms by (simp add: render_def read_brightness)
qed

lemma brightness_examples:
  "brightness 200 50 = 100" "brightness 150 50 = 75" "brightness 100 50 = 50"
  "brightness 255 200 = 255"
  by (simp_all add: brightness_def clamp255_def nearest_def)

subsection \<open>The claims about rendering\<close>

text \<open>
  C1: for every source bitmap, rendering with the identity parameter set, which is
  also the filter object \<open>App\<close> starts with, gives back the source, pixel for pixel.
\<close>

theorem render_identity:
  "render (Some src) default_filters = Inr src
   \<and> render (Some src) (filters App_init) = Inr src"
proof -
  have "map (apply_stages \<lparr>grayscale_on = False, sepia_on = False, invert_on = False,
      brightness_pct = 100, contrast_pct = 100\<rparr>) (pixels src) = pixels src"
    by (simp add: apply_stages_default map_idI)
  then have "render (Some src) default_filters = Inr src"
    by (simp add: render_def read_default)
  then show ?thesis by (simp add: App_init_def)
qed

theorem render_identity_witness:
  "render
     (Some \<lparr>width = 2, height = 1,
        pixels = [\<lparr>red = 12, green = 200, blue = 77, alpha = 255\<rparr>,
                  \<lparr>red = 0, green = 255, blue = 128, alpha = 40\<rparr>]\<rparr>)
     default_filters
   = Inr \<lparr>width = 2, height = 1,
        pixels = [\<lparr>red = 12, green = 200, blue = 77, alpha = 255\<rparr>,
                  \<lparr>red = 0, green = 255, blue = 128, alpha = 40\<rparr>]\<rparr>"
  using render_identity
    [of "\<lparr>width = 2, height = 1,
        pixels = [\<lparr>red = 12, green = 200, blue = 77, alpha = 255\<rparr>,
                  \<lparr>red = 0, green = 255, blue = 128, alpha = 40\<rparr>]\<rparr>"]
  by simp

text \<open>
  C6: the brightness stage takes a channel value \<open>c\<close> and a percentage \<open>pct\<close> to
  \<open>c * (pct/100)\<close> clamped to 0..255, as an 8-bit value: the nearest integer, and the
  formula's own value whenever that is whole. With only the brightness changed, render
  applies that stage to the three colour channels of every pixel. The 1 by 1 pixel
  (200,150,100) at brightness 50 and contrast 100 becomes (100,75,50), and the pixel
  (255,255,255) at brightness 200 stays (255,255,255).
\<close>

theorem brightness_stage:
  "uint (brightness c pct) =
     max 0 (min 255 (round (real_of_int (uint c) * (real_of_int pct / 100))))
   \<and> (100 dvd uint c * pct \<longrightarrow>
        real_of_int (uint (brightness c pct)) =
          max 0 (min 255 (real_of_int (uint c) * (real_of_int pct / 100))))
   \<and> (0 \<le> pct \<and> pct \<le> 200 \<longrightarrow>
        render (Some src) (default_filters(''brightness'' \<mapsto> Num pct)) =
          Inr (src\<lparr>pixels := map (\<lambda>px. px\<lparr>red := brightness (red px) pct,
                                             green := brightness (green px) pct,
                                             blue := brightness (blue px) pct\<rparr>)
                                  (pixels src)\<rparr>))
   \<and> render
       (Some \<lparr>width = 1, height = 1,
          pixels = [\<lparr>red = 200, green = 150, blue = 100, alpha = a\<rparr>]\<rparr>)
       (default_filters(''brightness'' \<mapsto> Num 50, ''contrast'' \<mapsto> Num 100))
     = Inr \<lparr>width = 1, height = 1,
          pixels = [\<lparr>red = 100, green = 75, blue = 50, alpha = a\<rparr>]\<rparr>
   \<and> render
       (Some \<lparr>width = 1, height = 1,
          pixels = [\<lparr>red = 255, green = 255, blue = 255, alpha = a\<rparr>]\<rparr>)
       (default_filters(''brightness'' \<mapsto> Num 200))
     = Inr \<lparr>width = 1, height = 1,
          pixels = [\<lparr>red = 255, green = 255, blue = 255, alpha = a\<rparr>]\<rparr>"
proof -
  have same: "default_filters(''brightness'' \<mapsto> Num 50, ''contrast'' \<mapsto> Num 100)
      = default_filters(''brightness'' \<mapsto> Num 50)"
    by (rule ext) (simp add: default_filters_def)
  have formula: "uint (brightness c pct) =
      max 0 (min 255 (round (real_of_int (uint c) * (real_of_int pct / 100))))"
    by (rule brightness_round)
  have whole: "100 dvd uint c * pct \<longrightarrow>
      real_of_int (uint (brightness c pct)) =
        max 0 (min 255 (real_of_int (uint c) * (real_of_int pct / 100)))"
    by (rule impI) (rule brightness_whole)
  have stage: "0 \<le> pct \<and> pct \<le> 200 \<longrightarrow>
      render (Some src) (default_filters(''brightness'' \<mapsto> Num pct)) =
        Inr (src\<lparr>pixels := map (\<lambda>px. px\<lparr>red := brightness (red px) pct,
                                           green := brightness (green px) pct,
                                           blue := brightness (blue px) pct\<rparr>)
                                (pixels src)\<rparr>)"
    by (simp add: render_brightness)
  have half: "render
       (Some \<lparr>width = 1, height = 1,
          pixels = [\<lparr>red = 200, green = 150, blue = 100, alpha = a\<rparr>]\<rparr>)
       (default_filters(''brightness'' \<mapsto> Num 50, ''contrast'' \<mapsto> Num 100))
     = Inr \<lparr>width = 1, height = 1,
          pixels = [\<lparr>red = 100, green = 75, blue = 50, alpha = a\<rparr>]\<rparr>"
    by (simp add: same render_brightness brightness_examples)
  have double: "render
       (Some \<lparr>width = 1, height = 1,
          pixels = [\<lparr>red = 255, green = 255, blue = 255, alpha = a\<rparr>]\<rparr>)
       (default_filters(''brightness'' \<mapsto> Num 200))
     = Inr \<lparr>width = 1, height = 1,
          pixels = [\<lparr>red = 255, green = 255, blue = 255, alpha = a\<rparr>]\<rparr>"
    by (simp add: render_brightness brightness_examples)
  show ?thesis
    by (rule conjI [OF formula conjI [OF whole conjI [OF stage conjI [OF half double]]]])
qed

theorem brightness_stage_witness:
  "100 dvd uint (200 :: channel) * 50 \<and> (0::int) \<le> 50 \<and> (50::int) \<le> 200
   \<and> uint (brightness 200 50) = 100
   \<and> render
       (Some \<lparr>width = 1, height = 1,
          pixels = [\<lparr>red = 200, green = 150, blue = 100, alpha = 255\<rparr>]\<rparr>)
       (default_filters(''brightness'' \<mapsto> Num 50))
     = Inr \<lparr>width = 1, height = 1,
          pixels = [\<lparr>red = 100, green = 75, blue = 50, alpha = 255\<rparr>]\<rparr>"
  using brightness_stage
    [of 200 50 "\<lparr>width = 1, height = 1,
          pixels = [\<lparr>red = 200, green = 150, blue = 100, alpha = 255\<rparr>]\<rparr>" 255]
  by (simp add: brightness_examples)

text \<open>
  C8: rendering with only invert on, and rendering the result the same way again, gives
  back the source, for every source bitmap; a 2 by 2 white source rendered once with
  invert on is black at all four pixels, each alpha as it was.
\<close>

theorem invert_involution:
  "(\<exists>mid. render (Some src) (default_filters(''invert'' \<mapsto> Bool True)) = Inr mid
       \<and> render (Some mid) (default_filters(''invert'' \<mapsto> Bool True)) = Inr src)
   \<and> render
       (Some \<lparr>width = 2, height = 2,
          pixels = [\<lparr>red = 255, green = 255, blue = 255, alpha = a1\<rparr>,
                    \<lparr>red = 255, green = 255, blue = 255, alpha = a2\<rparr>,
                    \<lparr>red = 255, green = 255, blue = 255, alpha = a3\<rparr>,
                    \<lparr>red = 255, green = 255, blue = 255, alpha = a4\<rparr>]\<rparr>)
       (default_filters(''invert'' \<mapsto> Bool True))
     = Inr \<lparr>width = 2, height = 2,
          pixels = [\<lparr>red = 0, green = 0, blue = 0, alpha = a1\<rparr>,
                    \<lparr>red = 0, green = 0, blue = 0, alpha = a2\<rparr>,
                    \<lparr>red = 0, green = 0, blue = 0, alpha = a3\<rparr>,
                    \<lparr>red = 0, green = 0, blue = 0, alpha = a4\<rparr>]\<rparr>"
proof -
  have "map invert (map invert (pixels src)) = pixels src"
    by (simp add: invert_invert map_idI)
  then have "render (Some (src\<lparr>pixels := map invert (pixels src)\<rparr>))
      (default_filters(''invert'' \<mapsto> Bool True)) = Inr src"
    by (simp add: render_invert)
  then have "\<exists>mid. render (Some src) (default_filters(''invert'' \<mapsto> Bool True)) = Inr mid
       \<and> render (Some mid) (default_filters(''invert'' \<mapsto> Bool True)) = Inr src"
    by (simp add: render_invert)
  then show ?thesis
    by (simp add: render_invert invert_white)
qed

theorem invert_involution_witness:
  "render
     (Some \<lparr>width = 1, height = 1,
        pixels = [\<lparr>red = 10, green = 128, blue = 255, alpha = 99\<rparr>]\<rparr>)
     (default_filters(''invert'' \<mapsto> Bool True))
   = Inr \<lparr>width = 1, height = 1,
        pixels = [\<lparr>red = 245, green = 127, blue = 0, alpha = 99\<rparr>]\<rparr>
   \<and> render
     (Some \<lparr>width = 1, height = 1,
        pixels = [\<lparr>red = 245, green = 127, blue = 0, alpha = 99\<rparr>]\<rparr>)
     (default_filters(''invert'' \<mapsto> Bool True))
   = Inr \<lparr>width = 1, height = 1,
        pixels = [\<lparr>red = 10, green = 128, blue = 255, alpha = 99\<rparr>]\<rparr>"
proof -
  have m: "render
     (Some \<lparr>width = 1, height = 1,
        pixels = [\<lparr>red = 10, green = 128, blue = 255, alpha = 99\<rparr>]\<rparr>)
     (default_filters(''invert'' \<mapsto> Bool True))
   = Inr \<lparr>width = 1, height = 1,
        pixels = [\<lparr>red = 245, green = 127, blue = 0, alpha = 99\<rparr>]\<rparr>"
    by (simp add: render_invert invert_def clamp255_def)
  from invert_involution
    [of "\<lparr>width = 1, height = 1,
        pixels = [\<lparr>red = 10, green = 128, blue = 255, alpha = 99\<rparr>]\<rparr>"] m
  show ?thesis by auto
qed

end
